theory Spec2Isabelle
  imports Complex_Main "HOL-Library.Word"
begin

section \<open>Python and numpy values\<close>

text \<open>
  The model follows \<^verbatim>\<open>source/world.py\<close>. Python integers are \<^typ>\<open>int\<close>, Python floats are
  read as the real numbers they denote (rounding of float64 arithmetic is not modelled), and
  every exception the code can raise is a value of \<open>error\<close>.
\<close>

datatype error =
    IndexError
  | OverflowError
  | ValueError
  | ZeroDivisionError
  | FileNotFoundError
  | WorldGenSizeError string

type_synonym uint8 = "8 word"

text \<open>
  A numpy array with element type \<^verbatim>\<open>uint8\<close>: its shape and its elements in row-major order.
  Arrays of other element types are outside the model.
\<close>

record ndarray =
  shape :: "nat list"
  data :: "uint8 list"

definition ndarray_ok :: "ndarray \<Rightarrow> bool" where
  "ndarray_ok a = (length (data a) = prod_list (shape a))"

text \<open>What an expression of the code can evaluate to: a Python integer, a numpy scalar, an array.\<close>

datatype pyval = PyInt int | NpUint8 uint8 | NpArray ndarray

text \<open>\<^verbatim>\<open>np.zeros(n, dtype=np.uint8)\<close>; a negative length raises \<^verbatim>\<open>ValueError\<close>.\<close>

definition np_zeros :: "int \<Rightarrow> error + ndarray" where
  "np_zeros n =
     (if n < 0 then Inl ValueError
      else Inr \<lparr>shape = [nat n], data = replicate (nat n) 0\<rparr>)"

text \<open>
  An integer index along the first axis of length \<open>d\<close>: negative indices count from the end,
  anything outside \<open>[-d, d)\<close> raises \<^verbatim>\<open>IndexError\<close>.
\<close>

definition normalize_index :: "nat \<Rightarrow> int \<Rightarrow> error + nat" where
  "normalize_index d i =
     (if - int d \<le> i \<and> i < int d
      then Inr (nat (if i < 0 then i + int d else i))
      else Inl IndexError)"

text \<open>
  \<^verbatim>\<open>a[i]\<close> for an integer \<open>i\<close>: an element of a one-dimensional array, the \<open>i\<close>-th sub-array of
  an array of higher rank, \<^verbatim>\<open>IndexError\<close> on a zero-dimensional one.
\<close>

definition getitem :: "ndarray \<Rightarrow> int \<Rightarrow> error + pyval" where
  "getitem a i =
     (case shape a of
        [] \<Rightarrow> Inl IndexError
      | d # ds \<Rightarrow>
          (case normalize_index d i of
             Inl e \<Rightarrow> Inl e
           | Inr k \<Rightarrow>
               (let p = prod_list ds; sub = take p (drop (k * p) (data a))
                in if ds = []
                   then (case sub of [b] \<Rightarrow> Inr (NpUint8 b) | _ \<Rightarrow> Inl IndexError)
                   else Inr (NpArray \<lparr>shape = ds, data = sub\<rparr>))))"

text \<open>
  Storing a Python integer into a \<^verbatim>\<open>uint8\<close> array: numpy 2 raises \<^verbatim>\<open>OverflowError\<close> for a
  value outside \<open>[0, 255]\<close>.
\<close>

definition to_uint8 :: "int \<Rightarrow> error + uint8" where
  "to_uint8 v = (if 0 \<le> v \<and> v < 256 then Inr (word_of_int v) else Inl OverflowError)"

text \<open>
  \<^verbatim>\<open>a[i] = v\<close> for an integer \<open>i\<close> and a Python integer \<open>v\<close>: one element of a one-dimensional
  array is overwritten; on an array of higher rank the scalar is broadcast over the \<open>i\<close>-th
  sub-array.
\<close>

definition setitem :: "ndarray \<Rightarrow> int \<Rightarrow> int \<Rightarrow> error + ndarray" where
  "setitem a i v =
     (case shape a of
        [] \<Rightarrow> Inl IndexError
      | d # ds \<Rightarrow>
          (case normalize_index d i of
             Inl e \<Rightarrow> Inl e
           | Inr k \<Rightarrow>
               (case to_uint8 v of
                  Inl e \<Rightarrow> Inl e
                | Inr b \<Rightarrow>
                    (let p = prod_list ds
                     in Inr (a\<lparr>data := take (k * p) (data a) @ replicate p b
                                          @ drop (k * p + p) (data a)\<rparr>)))))"

section \<open>Configuration\<close>

text \<open>
  \<^verbatim>\<open>source/options.py\<close> and \<^verbatim>\<open>source/blocks.py\<close> are not part of the sources at hand.
  \<^verbatim>\<open>WORLD_SIZE\<close> is the parameter \<open>S\<close> of every definition below, and the registry
  \<^verbatim>\<open>Blocks.named\<close> is the parameter \<open>named\<close>, a dictionary from names to block IDs.
\<close>

type_synonym registry = "string \<rightharpoonup> int"

text \<open>
  Modelled from the spec: \<^verbatim>\<open>WORLD_LAYER\<close>, a constant of \<^verbatim>\<open>source/options.py\<close>. The spec gives the
  index of \<open>(x, y, z)\<close> as \<open>z*S*S + y*S + x\<close>, so a layer is \<open>S*S\<close> cells.
\<close>

definition WORLD_LAYER :: "int \<Rightarrow> int" where
  "WORLD_LAYER S = S * S"

section \<open>World\<close>

type_synonym position = "int \<times> int \<times> int"

record World =
  voxels :: ndarray
  sun :: "real \<times> real \<times> real"

text \<open>\<^verbatim>\<open>World.__init__\<close>: a zeroed buffer of \<open>S ** 3\<close> cells and the normalised sun direction.\<close>

definition World_init :: "int \<Rightarrow> error + World" where
  "World_init S =
     (case np_zeros (S ^ 3) of
        Inl e \<Rightarrow> Inl e
      | Inr a \<Rightarrow>
          (let s = (1, 2, -3) :: real \<times> real \<times> real;
               length = sqrt ((fst s)\<^sup>2 + (fst (snd s))\<^sup>2 + (snd (snd s))\<^sup>2)
           in Inr \<lparr>voxels = a,
                   sun = (fst s / length, fst (snd s) / length, snd (snd s) / length)\<rparr>))"

text \<open>The flat index \<^verbatim>\<open>position[2] * WORLD_LAYER + position[1] * WORLD_SIZE + position[0]\<close>.\<close>

fun flat_index :: "int \<Rightarrow> position \<Rightarrow> int" where
  "flat_index S (x, y, z) = z * WORLD_LAYER S + y * S + x"

text \<open>The test \<^verbatim>\<open>-1 < position[k] < WORLD_SIZE\<close> on all three coordinates.\<close>

fun in_bounds :: "int \<Rightarrow> position \<Rightarrow> bool" where
  "in_bounds S (x, y, z) = ((-1 < x \<and> x < S) \<and> (-1 < y \<and> y < S) \<and> (-1 < z \<and> z < S))"

text \<open>
  A method that assigns to the world returns its result (or the exception raised) together with
  the world as it is afterwards. A method that only reads is a function of the world.
\<close>

definition World_set_unsafe :: "int \<Rightarrow> World \<Rightarrow> position \<Rightarrow> int \<Rightarrow> (error + unit) \<times> World" where
  "World_set_unsafe S w position v =
     (case setitem (voxels w) (flat_index S position) v of
        Inl e \<Rightarrow> (Inl e, w)
      | Inr a \<Rightarrow> (Inr (), w\<lparr>voxels := a\<rparr>))"

text \<open>The argument \<^verbatim>\<open>value: int | str\<close> of \<^verbatim>\<open>World.set\<close>.\<close>

datatype block_value = Id int | Name string

definition World_set ::
  "int \<Rightarrow> registry \<Rightarrow> World \<Rightarrow> position \<Rightarrow> block_value \<Rightarrow> (error + bool) \<times> World" where
  "World_set S named w position val =
     (case (case val of Name s \<Rightarrow> named s | Id v \<Rightarrow> Some v) of
        None \<Rightarrow> (Inr False, w)
      | Some v \<Rightarrow>
          if in_bounds S position
          then (case setitem (voxels w) (flat_index S position) v of
                  Inl e \<Rightarrow> (Inl e, w)
                | Inr a \<Rightarrow> (Inr True, w\<lparr>voxels := a\<rparr>))
          else (Inr False, w))"

definition World_get_unsafe :: "int \<Rightarrow> World \<Rightarrow> position \<Rightarrow> error + pyval" where
  "World_get_unsafe S w position = getitem (voxels w) (flat_index S position)"

definition World_get :: "int \<Rightarrow> World \<Rightarrow> position \<Rightarrow> error + pyval" where
  "World_get S w position =
     (if in_bounds S position
      then getitem (voxels w) (flat_index S position)
      else Inr (PyInt (-1)))"

text \<open>
  The files \<^verbatim>\<open>np.load\<close> can read, by name, each with the array it holds. A name with no file
  raises \<^verbatim>\<open>FileNotFoundError\<close>.
\<close>

type_synonym files = "string \<rightharpoonup> ndarray"

definition np_load :: "files \<Rightarrow> string \<Rightarrow> error + ndarray" where
  "np_load fs filename = (case fs filename of None \<Rightarrow> Inl FileNotFoundError | Some a \<Rightarrow> Inr a)"

text \<open>
  \<^verbatim>\<open>World.load\<close> assigns \<^verbatim>\<open>self.voxels\<close> first and compares the shape with \<^verbatim>\<open>(WORLD_SIZE**3,)\<close>
  afterwards. \<^verbatim>\<open>WorldGenSizeError\<close> is declared in \<^verbatim>\<open>source/exceptions.py\<close>, which is not at hand;
  it is an exception class of its own here.
\<close>

definition World_load :: "int \<Rightarrow> files \<Rightarrow> World \<Rightarrow> string \<Rightarrow> (error + unit) \<times> World" where
  "World_load S fs w filename =
     (case np_load fs filename of
        Inl e \<Rightarrow> (Inl e, w)
      | Inr a \<Rightarrow>
          (let w' = w\<lparr>voxels := a\<rparr>
           in if map int (shape (voxels w')) \<noteq> [S ^ 3]
              then (Inl (WorldGenSizeError ''Incorrect world size''), w')
              else (Inr (), w')))"

text \<open>
  The buffer as \<^verbatim>\<open>World.__init__\<close> leaves it and as \<^verbatim>\<open>World.load\<close> accepts it: one axis of
  \<open>S ** 3\<close> cells.
\<close>

definition world_ok :: "int \<Rightarrow> World \<Rightarrow> bool" where
  "world_ok S w =
     (map int (shape (voxels w)) = [S ^ 3] \<and> int (length (data (voxels w))) = S ^ 3)"

section \<open>Ray\<close>

record Ray =
  origin :: "real \<times> real \<times> real"
  direction :: "real \<times> real \<times> real"
  integer_position :: "int list"
  float_position :: "real list"
  ray_length :: real

definition Ray_init :: "real \<times> real \<times> real \<Rightarrow> real \<times> real \<times> real \<Rightarrow> Ray" where
  "Ray_init orig dir =
     \<lparr>origin = orig, direction = dir, integer_position = [0, 0, 0],
      float_position = [0, 0, 0], ray_length = 0\<rparr>"

text \<open>
  \<^verbatim>\<open>Ray.cast\<close> has a docstring and no statement: it assigns to nothing and returns \<^verbatim>\<open>None\<close>.
  The result is paired with the ray as it is afterwards.
\<close>

definition Ray_cast :: "Ray \<Rightarrow> World \<Rightarrow> Ray option \<times> Ray" where
  "Ray_cast r w = (None, r)"

section \<open>World generation\<close>

text \<open>
  Statements run on a state and return the exception raised, if any, with the state as it is
  then. \<open>for_loop\<close> is \<^verbatim>\<open>for i in ...: body\<close>: it stops at the first exception.
\<close>

type_synonym 's stmt = "'s \<Rightarrow> (error + unit) \<times> 's"

fun for_loop :: "'i list \<Rightarrow> ('i \<Rightarrow> 's stmt) \<Rightarrow> 's stmt" where
  "for_loop [] body s = (Inr (), s)"
| "for_loop (i # rest) body s =
     (case body i s of
        (Inl e, s') \<Rightarrow> (Inl e, s')
      | (Inr u, s') \<Rightarrow> for_loop rest body s')"

text \<open>Two statements in sequence, and the empty statement.\<close>

definition seq :: "'s stmt \<Rightarrow> 's stmt \<Rightarrow> 's stmt" where
  "seq m1 m2 s = (case m1 s of (Inl e, s') \<Rightarrow> (Inl e, s') | (Inr u, s') \<Rightarrow> m2 s')"


text \<open>\<^verbatim>\<open>range(n)\<close>: empty for \<open>n \<le> 0\<close>.\<close>

definition py_range :: "int \<Rightarrow> int list" where
  "py_range n = map int [0..<nat n]"





definition WorldGen_generate_flat :: "int \<Rightarrow> int \<Rightarrow> error + World" where
  "WorldGen_generate_flat S level =
     (case World_init S of
        Inl e \<Rightarrow> Inl e
      | Inr world \<Rightarrow>
          (case for_loop (py_range S) (\<lambda>y.
                  for_loop (py_range S) (\<lambda>x.
                    for_loop (py_range level) (\<lambda>z w. World_set_unsafe S w (x, y, z) 1)))
                  world of
             (Inl e, w') \<Rightarrow> Inl e
           | (Inr u, w') \<Rightarrow> Inr w'))"









section \<open>What the claims speak of\<close>

text \<open>The block at a position of a grid whose buffer has one axis.\<close>

definition cell :: "int \<Rightarrow> World \<Rightarrow> position \<Rightarrow> uint8" where
  "cell S w p = data (voxels w) ! nat (flat_index S p)"









declare flat_index.simps [simp del] in_bounds.simps [simp del]


section \<open>Index arithmetic and array access\<close>

lemma flat_index_bounds:
  assumes "in_bounds S p"
  shows "0 \<le> flat_index S p \<and> flat_index S p < S ^ 3"
proof -
  obtain x y z where p: "p = (x, y, z)" by (cases p)
  from assms p have b: "0 \<le> x" "x \<le> S - 1" "0 \<le> y" "y \<le> S - 1" "0 \<le> z" "z \<le> S - 1"
    by (auto simp add: in_bounds.simps)
  then have S: "0 < S" by linarith
  have zy: "z * S + y \<le> (S - 1) * S + (S - 1)"
    using b S by (intro add_mono mult_right_mono) auto
  have "(z * S + y) * S \<le> ((S - 1) * S + (S - 1)) * S"
    using zy S by (intro mult_right_mono) auto
  then have "(z * S + y) * S + x \<le> ((S - 1) * S + (S - 1)) * S + (S - 1)"
    using b by linarith
  also have "\<dots> = S ^ 3 - 1" by (simp add: algebra_simps power3_eq_cube)
  finally have up: "(z * S + y) * S + x < S ^ 3" by simp
  have "0 \<le> (z * S + y) * S + x" using b S by simp
  with up show ?thesis by (simp add: p flat_index.simps WORLD_LAYER_def algebra_simps)
qed

lemma flat_index_inj:
  assumes "in_bounds S p" "in_bounds S q" "flat_index S p = flat_index S q"
  shows "p = q"
proof -
  obtain x y z where p: "p = (x, y, z)" by (cases p)
  obtain x' y' z' where q: "q = (x', y', z')" by (cases q)
  from assms p q have b: "0 \<le> x" "x < S" "0 \<le> y" "y < S" "0 \<le> x'" "x' < S" "0 \<le> y'" "y' < S"
    by (auto simp add: in_bounds.simps)
  from assms(3) p q have e: "(z * S + y) * S + x = (z' * S + y') * S + x'"
    by (simp add: flat_index.simps WORLD_LAYER_def algebra_simps)
  have "((z * S + y) * S + x) mod S = x" "((z' * S + y') * S + x') mod S = x'"
    using b by simp_all
  with e have x: "x = x'" by simp
  have "((z * S + y) * S + x) div S = z * S + y" "((z' * S + y') * S + x') div S = z' * S + y'"
    using b by simp_all
  with e have e2: "z * S + y = z' * S + y'" by simp
  have "(z * S + y) mod S = y" "(z' * S + y') mod S = y'" using b by simp_all
  with e2 have y: "y = y'" by simp
  have "(z * S + y) div S = z" "(z' * S + y') div S = z'" using b by simp_all
  with e2 have "z = z'" by simp
  with x y p q show ?thesis by simp
qed

lemma setitem_flat:
  assumes "shape a = [n]" "length (data a) = n" "0 \<le> i" "i < int n" "0 \<le> v" "v < 256"
  shows "setitem a i v = Inr (a\<lparr>data := (data a)[nat i := word_of_int v]\<rparr>)"
  using assms
  by (simp add: setitem_def normalize_index_def to_uint8_def upd_conv_take_nth_drop)

lemma getitem_flat:
  assumes "shape a = [n]" "length (data a) = n" "0 \<le> i" "i < int n"
  shows "getitem a i = Inr (NpUint8 (data a ! nat i))"
  using assms
  by (auto simp add: getitem_def normalize_index_def Let_def take_Suc_conv_app_nth
      split: list.splits)

lemma world_ok_shape:
  assumes "world_ok S w"
  shows "\<exists>n. shape (voxels w) = [n] \<and> length (data (voxels w)) = n \<and> int n = S ^ 3"
  using assms by (auto simp add: world_ok_def)

lemma World_set_resolved:
  assumes ok: "world_ok S w" and ib: "in_bounds S p"
      and res: "(case val of Name s \<Rightarrow> named s | Id u \<Rightarrow> Some u) = Some v"
      and v: "0 \<le> v" "v < 256"
  shows "World_set S named w p val =
           (Inr True, w\<lparr>voxels := (voxels w)\<lparr>data :=
              (data (voxels w))[nat (flat_index S p) := word_of_int v]\<rparr>\<rparr>)"
proof -
  from world_ok_shape [OF ok] obtain n where
    n: "shape (voxels w) = [n]" "length (data (voxels w)) = n" "int n = S ^ 3" by blast
  from flat_index_bounds [OF ib] n have "0 \<le> flat_index S p" "flat_index S p < int n" by simp_all
  from setitem_flat [OF n(1) n(2) this v] res ib show ?thesis
    by (simp add: World_set_def)
qed

lemma setitem_overflow:
  assumes "\<not> (0 \<le> v \<and> v < 256)"
  shows "\<exists>e. setitem a i v = Inl e"
proof (cases "shape a")
  case Nil
  then show ?thesis by (simp add: setitem_def)
next
  case (Cons d ds)
  show ?thesis
  proof (cases "normalize_index d i")
    case (Inl e)
    with Cons show ?thesis by (simp add: setitem_def)
  next
    case (Inr k)
    with Cons assms show ?thesis by (auto simp add: setitem_def to_uint8_def)
  qed
qed

lemma World_set_unresolved:
  assumes "\<not> (\<exists>v. (case val of Name s \<Rightarrow> named s | Id u \<Rightarrow> Some u) = Some v \<and> 0 \<le> v \<and> v < 256)"
  shows "snd (World_set S named w p val) = w"
proof (cases "case val of Name s \<Rightarrow> named s | Id u \<Rightarrow> Some u")
  case None
  then show ?thesis by (simp add: World_set_def)
next
  case (Some v)
  with assms have "\<not> (0 \<le> v \<and> v < 256)" by blast
  from setitem_overflow [OF this] obtain e where
    "setitem (voxels w) (flat_index S p) v = Inl e" by blast
  with Some show ?thesis by (simp add: World_set_def)
qed

lemma World_get_in:
  assumes ok: "world_ok S w" and ib: "in_bounds S p"
  shows "World_get S w p = Inr (NpUint8 (data (voxels w) ! nat (flat_index S p)))"
proof -
  from world_ok_shape [OF ok] obtain n where
    n: "shape (voxels w) = [n]" "length (data (voxels w)) = n" "int n = S ^ 3" by blast
  from flat_index_bounds [OF ib] n have "0 \<le> flat_index S p" "flat_index S p < int n" by simp_all
  from getitem_flat [OF n(1) n(2) this] ib show ?thesis by (simp add: World_get_def)
qed

lemma world_ok_update:
  "world_ok S w \<Longrightarrow> world_ok S (w\<lparr>voxels := (voxels w)\<lparr>data := (data (voxels w))[k := b]\<rparr>\<rparr>)"
  by (simp add: world_ok_def)

section \<open>Loops and single placements\<close>

lemma for_loop_invariant:
  assumes "I pre s"
      and "\<And>dn i s. I dn s \<Longrightarrow> i \<in> set xs \<Longrightarrow> \<exists>s'. body i s = (Inr (), s') \<and> I (dn @ [i]) s'"
  shows "\<exists>s'. for_loop xs body s = (Inr (), s') \<and> I (pre @ xs) s'"
  using assms
proof (induction xs arbitrary: pre s)
  case Nil
  then show ?case by simp
next
  case (Cons i rest)
  from Cons.prems(2) [OF Cons.prems(1), of i] obtain s1 where
    s1: "body i s = (Inr (), s1)" "I (pre @ [i]) s1" by auto
  have "\<exists>s'. for_loop rest body s1 = (Inr (), s') \<and> I ((pre @ [i]) @ rest) s'"
  proof (rule Cons.IH [OF s1(2)])
    fix dn j t
    assume "I dn t" "j \<in> set rest"
    then show "\<exists>s'. body j t = (Inr (), s') \<and> I (dn @ [j]) s'"
      using Cons.prems(2) [of dn t j] by simp
  qed
  with s1(1) show ?case by simp
qed

lemma set_py_range: "set (py_range n) = {i. 0 \<le> i \<and> i < n}"
proof -
  have "i \<in> int ` {0..<nat n} \<longleftrightarrow> 0 \<le> i \<and> i < n" for i
  proof
    assume "i \<in> int ` {0..<nat n}"
    then show "0 \<le> i \<and> i < n" by auto
  next
    assume a: "0 \<le> i \<and> i < n"
    then have "nat i \<in> {0..<nat n}" "int (nat i) = i" by auto
    then show "i \<in> int ` {0..<nat n}" by (metis imageI)
  qed
  then show ?thesis by (auto simp add: py_range_def)
qed

lemma cell_update:
  assumes ok: "world_ok S w" and p: "in_bounds S p" and q: "in_bounds S q"
  shows "cell S (w\<lparr>voxels := (voxels w)\<lparr>data := (data (voxels w))[nat (flat_index S p) := b]\<rparr>\<rparr>) q
           = (if q = p then b else cell S w q)"
proof -
  from world_ok_shape [OF ok] obtain n where
    n: "length (data (voxels w)) = n" "int n = S ^ 3" by blast
  from flat_index_bounds [OF p] n have kp: "nat (flat_index S p) < length (data (voxels w))"
    by (simp add: nat_less_iff)
  have "nat (flat_index S p) = nat (flat_index S q) \<longleftrightarrow> q = p"
    using flat_index_bounds [OF p] flat_index_bounds [OF q] flat_index_inj [OF q p] by auto
  with kp show ?thesis by (simp add: cell_def nth_list_update)
qed


lemma set_unsafe_effect:
  assumes ok: "world_ok S w" and p: "in_bounds S p" and v: "0 \<le> v" "v < 256"
  shows "\<exists>w'. World_set_unsafe S w p v = (Inr (), w') \<and> world_ok S w' \<and> sun w' = sun w \<and>
           (\<forall>q. in_bounds S q \<longrightarrow> cell S w' q = (if q = p then word_of_int v else cell S w q))"
proof -
  from world_ok_shape [OF ok] obtain n where
    n: "shape (voxels w) = [n]" "length (data (voxels w)) = n" "int n = S ^ 3" by blast
  from flat_index_bounds [OF p] n have "0 \<le> flat_index S p" "flat_index S p < int n" by simp_all
  from setitem_flat [OF n(1) n(2) this v]
  have "World_set_unsafe S w p v =
          (Inr (), w\<lparr>voxels := (voxels w)\<lparr>data := (data (voxels w))[nat (flat_index S p) := word_of_int v]\<rparr>\<rparr>)"
    by (simp add: World_set_unsafe_def)
  moreover note world_ok_update [OF ok, of "nat (flat_index S p)" "word_of_int v"]
  moreover note cell_update [OF ok p]
  ultimately show ?thesis by simp
qed

lemma World_init_effect:
  assumes "0 \<le> S"
  shows "\<exists>w. World_init S = Inr w \<and> world_ok S w \<and> (\<forall>q. in_bounds S q \<longrightarrow> cell S w q = 0)"
proof -
  let ?w = "\<lparr>voxels = \<lparr>shape = [nat (S ^ 3)], data = replicate (nat (S ^ 3)) 0\<rparr>,
             sun = (1 / sqrt 14, 2 / sqrt 14, - 3 / sqrt 14)\<rparr>"
  have i: "World_init S = Inr ?w"
    using assms by (simp add: World_init_def np_zeros_def Let_def)
  have ok: "world_ok S ?w" using assms by (simp add: world_ok_def)
  have "cell S ?w q = 0" if "in_bounds S q" for q
  proof -
    have "nat (flat_index S q) < nat (S ^ 3)"
      using flat_index_bounds [OF that] by linarith
    then show ?thesis by (simp add: cell_def)
  qed
  with i ok show ?thesis by blast
qed

lemma World_get_cell:
  assumes "world_ok S w" "in_bounds S p"
  shows "World_get S w p = Inr (NpUint8 (cell S w p))"
  using World_get_in [OF assms] by (simp add: cell_def)

lemma in_bounds_iff: "in_bounds S (x, y, z) \<longleftrightarrow> 0 \<le> x \<and> x < S \<and> 0 \<le> y \<and> y < S \<and> 0 \<le> z \<and> z < S"
  by (auto simp add: in_bounds.simps)

lemma flat_loop_z:
  assumes ok: "world_ok S w" and xy: "0 \<le> x" "x < S" "0 \<le> y" "y < S"
      and zs: "\<forall>z \<in> set zs. 0 \<le> z \<and> z < S"
  shows "\<exists>w'. for_loop zs (\<lambda>z w. World_set_unsafe S w (x, y, z) 1) w = (Inr (), w') \<and>
           world_ok S w' \<and>
           (\<forall>q. in_bounds S q \<longrightarrow>
              cell S w' q = (if \<exists>z \<in> set zs. q = (x, y, z) then 1 else cell S w q))"
proof -
  let ?I = "\<lambda>dn w'. world_ok S w' \<and>
      (\<forall>q. in_bounds S q \<longrightarrow> cell S w' q = (if \<exists>z \<in> set dn. q = (x, y, z) then 1 else cell S w q))"
  have "\<exists>s'. for_loop zs (\<lambda>z w. World_set_unsafe S w (x, y, z) 1) w = (Inr (), s') \<and> ?I ([] @ zs) s'"
  proof (rule for_loop_invariant [where I = ?I])
    show "?I [] w" using ok by simp
  next
    fix dn z w1
    assume I: "?I dn w1" and z: "z \<in> set zs"
    then have p: "in_bounds S (x, y, z)" using xy zs by (simp add: in_bounds_iff)
    from set_unsafe_effect [OF _ p, of w1 1] I obtain w2 where
      w2: "World_set_unsafe S w1 (x, y, z) 1 = (Inr (), w2)" "world_ok S w2"
        "\<forall>q. in_bounds S q \<longrightarrow> cell S w2 q = (if q = (x, y, z) then 1 else cell S w1 q)"
      by auto
    have "?I (dn @ [z]) w2" using w2 I by auto
    with w2(1) show "\<exists>s'. World_set_unsafe S w1 (x, y, z) 1 = (Inr (), s') \<and> ?I (dn @ [z]) s'"
      by blast
  qed
  then show ?thesis by simp
qed

lemma flat_loop_x:
  assumes ok: "world_ok S w" and y: "0 \<le> y" "y < S"
      and xs: "\<forall>x \<in> set xs. 0 \<le> x \<and> x < S"
      and zs: "\<forall>z \<in> set zs. 0 \<le> z \<and> z < S"
  shows "\<exists>w'. for_loop xs (\<lambda>x. for_loop zs (\<lambda>z w. World_set_unsafe S w (x, y, z) 1)) w = (Inr (), w') \<and>
           world_ok S w' \<and>
           (\<forall>q. in_bounds S q \<longrightarrow>
              cell S w' q = (if \<exists>x \<in> set xs. \<exists>z \<in> set zs. q = (x, y, z) then 1 else cell S w q))"
proof -
  let ?body = "\<lambda>x. for_loop zs (\<lambda>z w. World_set_unsafe S w (x, y, z) 1)"
  let ?I = "\<lambda>dn w'. world_ok S w' \<and>
      (\<forall>q. in_bounds S q \<longrightarrow>
         cell S w' q = (if \<exists>x \<in> set dn. \<exists>z \<in> set zs. q = (x, y, z) then 1 else cell S w q))"
  have "\<exists>s'. for_loop xs ?body w = (Inr (), s') \<and> ?I ([] @ xs) s'"
  proof (rule for_loop_invariant [where I = ?I])
    show "?I [] w" using ok by simp
  next
    fix dn x w1
    assume I: "?I dn w1" and x: "x \<in> set xs"
    then have x': "0 \<le> x" "x < S" using xs by auto
    from I have ok1: "world_ok S w1" by simp
    from flat_loop_z [OF ok1 x' y zs] obtain w2 where
      w2: "?body x w1 = (Inr (), w2)" "world_ok S w2"
        "\<forall>q. in_bounds S q \<longrightarrow> cell S w2 q = (if \<exists>z \<in> set zs. q = (x, y, z) then 1 else cell S w1 q)"
      by blast
    have "?I (dn @ [x]) w2" using w2 I by auto
    with w2(1) show "\<exists>s'. ?body x w1 = (Inr (), s') \<and> ?I (dn @ [x]) s'" by blast
  qed
  then show ?thesis by simp
qed

lemma flat_loop_y:
  assumes ok: "world_ok S w"
      and ys: "\<forall>y \<in> set ys. 0 \<le> y \<and> y < S"
      and xs: "\<forall>x \<in> set xs. 0 \<le> x \<and> x < S"
      and zs: "\<forall>z \<in> set zs. 0 \<le> z \<and> z < S"
  shows "\<exists>w'. for_loop ys (\<lambda>y. for_loop xs (\<lambda>x. for_loop zs (\<lambda>z w. World_set_unsafe S w (x, y, z) 1))) w
             = (Inr (), w') \<and>
           world_ok S w' \<and>
           (\<forall>q. in_bounds S q \<longrightarrow>
              cell S w' q = (if \<exists>y \<in> set ys. \<exists>x \<in> set xs. \<exists>z \<in> set zs. q = (x, y, z) then 1
                            else cell S w q))"
proof -
  let ?body = "\<lambda>y. for_loop xs (\<lambda>x. for_loop zs (\<lambda>z w. World_set_unsafe S w (x, y, z) 1))"
  let ?I = "\<lambda>dn w'. world_ok S w' \<and>
      (\<forall>q. in_bounds S q \<longrightarrow>
         cell S w' q = (if \<exists>y \<in> set dn. \<exists>x \<in> set xs. \<exists>z \<in> set zs. q = (x, y, z) then 1
                       else cell S w q))"
  have "\<exists>s'. for_loop ys ?body w = (Inr (), s') \<and> ?I ([] @ ys) s'"
  proof (rule for_loop_invariant [where I = ?I])
    show "?I [] w" using ok by simp
  next
    fix dn y w1
    assume I: "?I dn w1" and y: "y \<in> set ys"
    then have y': "0 \<le> y" "y < S" using ys by auto
    from I have ok1: "world_ok S w1" by simp
    from flat_loop_x [OF ok1 y' xs zs] obtain w2 where
      w2: "?body y w1 = (Inr (), w2)" "world_ok S w2"
        "\<forall>q. in_bounds S q \<longrightarrow>
           cell S w2 q = (if \<exists>x \<in> set xs. \<exists>z \<in> set zs. q = (x, y, z) then 1 else cell S w1 q)"
      by blast
    have "?I (dn @ [y]) w2" using w2 I by auto
    with w2(1) show "\<exists>s'. ?body y w1 = (Inr (), s') \<and> ?I (dn @ [y]) s'" by blast
  qed
  then show ?thesis by simp
qed

section \<open>Trees\<close>


lemma seq_run: "m1 s = (Inr (), s1) \<Longrightarrow> m2 s1 = r \<Longrightarrow> seq m1 m2 s = r"
  by (simp add: seq_def)

















section \<open>Landscape\<close>











section \<open>The claims\<close>

text \<open>
  Claim C1. The spec's sample ray, from \<open>(0.5, 0.5, -5)\<close> in direction \<open>(0, 0, 1)\<close>: on every
  world, \<^verbatim>\<open>Ray.cast\<close> returns \<^verbatim>\<open>None\<close> and leaves the ray as constructed, at cell \<open>(0, 0, 0)\<close>
  with length \<open>0\<close>. No hit at cell \<open>(0, 0, 5)\<close> and no distance \<open>10.0\<close> is reported.
\<close>

theorem Ray_cast_returns_None:
  "Ray_cast (Ray_init (1/2, 1/2, -5) (0, 0, 1)) w = (None, Ray_init (1/2, 1/2, -5) (0, 0, 1)) \<and>
   integer_position (snd (Ray_cast (Ray_init (1/2, 1/2, -5) (0, 0, 1)) w)) = [0, 0, 0] \<and>
   ray_length (snd (Ray_cast (Ray_init (1/2, 1/2, -5) (0, 0, 1)) w)) = 0"
  by (simp add: Ray_cast_def Ray_init_def)




text \<open>
  Claim C3. On a grid whose buffer has \<open>S ** 3\<close> cells, for every position with all three
  coordinates in \<open>[0, S)\<close> and every block ID \<open>v\<close> in \<open>[0, 256)\<close>, \<^verbatim>\<open>set(pos, v)\<close> returns
  \<^verbatim>\<open>True\<close> and \<^verbatim>\<open>get(pos)\<close> on the grid it leaves returns the \<^verbatim>\<open>uint8\<close> scalar of value \<open>v\<close>.
\<close>

theorem World_set_get_roundtrip:
  assumes "world_ok S w" and "0 \<le> x \<and> x < S" and "0 \<le> y \<and> y < S" and "0 \<le> z \<and> z < S"
      and "0 \<le> v \<and> v < 256"
  shows "\<exists>w' b. World_set S named w (x, y, z) (Id v) = (Inr True, w') \<and>
           World_get S w' (x, y, z) = Inr (NpUint8 b) \<and> uint b = v"
proof -
  have ib: "in_bounds S (x, y, z)" using assms by (simp add: in_bounds.simps)
  let ?k = "nat (flat_index S (x, y, z))"
  let ?w' = "w\<lparr>voxels := (voxels w)\<lparr>data := (data (voxels w))[?k := word_of_int v]\<rparr>\<rparr>"
  have s: "World_set S named w (x, y, z) (Id v) = (Inr True, ?w')"
    using assms by (intro World_set_resolved [OF assms(1) ib]) simp_all
  have ok': "world_ok S ?w'" using assms(1) by (rule world_ok_update)
  from world_ok_shape [OF assms(1)] obtain n where
    n: "length (data (voxels w)) = n" "int n = S ^ 3" by blast
  from flat_index_bounds [OF ib] n have k: "?k < length (data (voxels w))"
    by (simp add: nat_less_iff)
  have g: "World_get S ?w' (x, y, z) = Inr (NpUint8 (word_of_int v))"
    using World_get_in [OF ok' ib] k by simp
  have "uint (word_of_int v :: uint8) = v"
    using assms(5) by (simp add: uint_word_of_int)
  with s g show ?thesis by blast
qed

theorem World_set_get_roundtrip_witness:
  "world_ok 2 \<lparr>voxels = \<lparr>shape = [8], data = replicate 8 0\<rparr>, sun = (0, 0, 1)\<rparr> \<and>
   (\<exists>w' b. World_set 2 Map.empty \<lparr>voxels = \<lparr>shape = [8], data = replicate 8 0\<rparr>, sun = (0, 0, 1)\<rparr>
              (1, 0, 1) (Id 7) = (Inr True, w') \<and>
           World_get 2 w' (1, 0, 1) = Inr (NpUint8 b) \<and> uint b = 7)"
proof -
  have ok: "world_ok 2 \<lparr>voxels = \<lparr>shape = [8], data = replicate 8 0\<rparr>, sun = (0, 0, 1)\<rparr>"
    by (simp add: world_ok_def)
  from World_set_get_roundtrip [OF ok, of 1 0 1 7 Map.empty] ok show ?thesis by simp
qed

text \<open>
  Claim C4. For every position with a coordinate below \<open>0\<close> or at least \<open>S\<close>, \<^verbatim>\<open>get(pos)\<close>
  returns the Python integer \<open>-1\<close>, which no \<^verbatim>\<open>uint8\<close> block ID equals, and \<^verbatim>\<open>set(pos, value)\<close>
  returns \<^verbatim>\<open>False\<close> and leaves the world, its voxel buffer included, as it was. \<^verbatim>\<open>get\<close> assigns
  to nothing.
\<close>

theorem out_of_bounds_get_set:
  assumes "x < 0 \<or> S \<le> x \<or> y < 0 \<or> S \<le> y \<or> z < 0 \<or> S \<le> z"
  shows "World_get S w (x, y, z) = Inr (PyInt (-1)) \<and>
         World_set S named w (x, y, z) val = (Inr False, w) \<and>
         (\<forall>b :: uint8. PyInt (-1) \<noteq> NpUint8 b \<and> uint b \<noteq> -1)"
proof -
  have nb: "\<not> in_bounds S (x, y, z)" using assms by (auto simp add: in_bounds.simps)
  have "uint b \<noteq> -1" for b :: uint8
    using uint_ge_0 [of b] by linarith
  with nb show ?thesis
    by (simp add: World_get_def World_set_def split: option.splits)
qed

theorem out_of_bounds_get_set_witness:
  "World_get 2 \<lparr>voxels = \<lparr>shape = [8], data = replicate 8 0\<rparr>, sun = (0, 0, 1)\<rparr> (0, 2, 1)
     = Inr (PyInt (-1)) \<and>
   World_set 2 Map.empty \<lparr>voxels = \<lparr>shape = [8], data = replicate 8 0\<rparr>, sun = (0, 0, 1)\<rparr>
     (0, 2, 1) (Id 1)
     = (Inr False, \<lparr>voxels = \<lparr>shape = [8], data = replicate 8 0\<rparr>, sun = (0, 0, 1)\<rparr>)"
  using out_of_bounds_get_set [of 0 2 2 1 "\<lparr>voxels = \<lparr>shape = [8], data = replicate 8 0\<rparr>, sun = (0, 0, 1)\<rparr>"
      Map.empty "Id 1"]
  by simp

text \<open>
  Claim C5. For every position, in bounds or not, and every name absent from the registry,
  \<^verbatim>\<open>set(pos, name)\<close> returns \<^verbatim>\<open>False\<close>, raises nothing and leaves the world as it was.
\<close>

theorem World_set_unknown_name:
  assumes "named s = None"
  shows "World_set S named w pos (Name s) = (Inr False, w)"
  using assms by (simp add: World_set_def)

theorem World_set_unknown_name_witness:
  "World_set 2 [''grass_block'' \<mapsto> 2]
     \<lparr>voxels = \<lparr>shape = [8], data = replicate 8 0\<rparr>, sun = (0, 0, 1)\<rparr> (1, 1, 1)
     (Name ''unknown_name'')
   = (Inr False, \<lparr>voxels = \<lparr>shape = [8], data = replicate 8 0\<rparr>, sun = (0, 0, 1)\<rparr>)"
  using World_set_unknown_name [of "[''grass_block'' \<mapsto> 2]" "''unknown_name''" 2
      "\<lparr>voxels = \<lparr>shape = [8], data = replicate 8 0\<rparr>, sun = (0, 0, 1)\<rparr>" "(1, 1, 1)"]
  by simp

text \<open>
  Claim C6. \<^verbatim>\<open>load(path)\<close> raises \<^verbatim>\<open>WorldGenSizeError\<close> exactly when a file exists at the path
  and the shape of its array differs from \<open>(S ** 3,)\<close>; it raises \<^verbatim>\<open>FileNotFoundError\<close> exactly
  when no file exists there, returns normally exactly when the shape matches, and the two
  errors are different values.
\<close>

theorem World_load_errors:
  "(fst (World_load S fs w path) = Inl (WorldGenSizeError ''Incorrect world size'') \<longleftrightarrow>
      (\<exists>a. fs path = Some a \<and> map int (shape a) \<noteq> [S ^ 3])) \<and>
   (fst (World_load S fs w path) = Inl FileNotFoundError \<longleftrightarrow> fs path = None) \<and>
   (fst (World_load S fs w path) = Inr () \<longleftrightarrow>
      (\<exists>a. fs path = Some a \<and> map int (shape a) = [S ^ 3])) \<and>
   FileNotFoundError \<noteq> WorldGenSizeError m"
  by (auto simp add: World_load_def np_load_def Let_def split: option.splits)

theorem World_load_errors_witness:
  "fst (World_load 2 [''debug.npy'' \<mapsto> \<lparr>shape = [2, 4], data = replicate 8 0\<rparr>]
          \<lparr>voxels = \<lparr>shape = [8], data = replicate 8 0\<rparr>, sun = (0, 0, 1)\<rparr> ''debug.npy'')
     = Inl (WorldGenSizeError ''Incorrect world size'') \<and>
   fst (World_load 2 [''debug.npy'' \<mapsto> \<lparr>shape = [2, 4], data = replicate 8 0\<rparr>]
          \<lparr>voxels = \<lparr>shape = [8], data = replicate 8 0\<rparr>, sun = (0, 0, 1)\<rparr> ''other.npy'')
     = Inl FileNotFoundError"
  using World_load_errors [of 2 "[''debug.npy'' \<mapsto> \<lparr>shape = [2, 4], data = replicate 8 0\<rparr>]"
      "\<lparr>voxels = \<lparr>shape = [8], data = replicate 8 0\<rparr>, sun = (0, 0, 1)\<rparr>" "''debug.npy''"]
    World_load_errors [of 2 "[''debug.npy'' \<mapsto> \<lparr>shape = [2, 4], data = replicate 8 0\<rparr>]"
      "\<lparr>voxels = \<lparr>shape = [8], data = replicate 8 0\<rparr>, sun = (0, 0, 1)\<rparr>" "''other.npy''"]
  by simp

text \<open>
  Claim C7. For every level with \<open>0 \<le> level \<le> S\<close>, \<^verbatim>\<open>generate_flat(level)\<close> returns a world
  in which every cell \<open>(x, y, z)\<close> with \<open>z < level\<close> holds the ground ID \<open>1\<close> and every cell with
  \<open>z \<ge> level\<close> holds \<open>0\<close>.
\<close>

theorem generate_flat_columns:
  assumes "0 \<le> level" and "level \<le> S"
  shows "\<exists>w. WorldGen_generate_flat S level = Inr w \<and>
           (\<forall>x y z. 0 \<le> x \<and> x < S \<and> 0 \<le> y \<and> y < S \<and> 0 \<le> z \<and> z < S \<longrightarrow>
              World_get S w (x, y, z) = Inr (NpUint8 (if z < level then 1 else 0)))"
proof -
  from assms have S: "0 \<le> S" by simp
  from World_init_effect [OF S] obtain w0 where
    w0: "World_init S = Inr w0" "world_ok S w0" "\<forall>q. in_bounds S q \<longrightarrow> cell S w0 q = 0" by blast
  have r: "\<forall>i \<in> set (py_range S). 0 \<le> i \<and> i < S"
    and l: "\<forall>z \<in> set (py_range level). 0 \<le> z \<and> z < S"
    using assms by (simp_all add: set_py_range)
  from flat_loop_y [OF w0(2) r r l] obtain w where
    w: "for_loop (py_range S) (\<lambda>y. for_loop (py_range S) (\<lambda>x.
          for_loop (py_range level) (\<lambda>z w. World_set_unsafe S w (x, y, z) 1))) w0 = (Inr (), w)"
      "world_ok S w"
      "\<forall>q. in_bounds S q \<longrightarrow>
         cell S w q = (if \<exists>y \<in> set (py_range S). \<exists>x \<in> set (py_range S). \<exists>z \<in> set (py_range level).
                            q = (x, y, z) then 1 else cell S w0 q)"
    by blast
  have g: "WorldGen_generate_flat S level = Inr w"
    using w0(1) w(1) by (simp add: WorldGen_generate_flat_def)
  have "World_get S w (x, y, z) = Inr (NpUint8 (if z < level then 1 else 0))"
    if b: "0 \<le> x \<and> x < S \<and> 0 \<le> y \<and> y < S \<and> 0 \<le> z \<and> z < S" for x y z
  proof -
    have ib: "in_bounds S (x, y, z)" using b by (simp add: in_bounds_iff)
    have "cell S w (x, y, z) = (if z < level then 1 else 0)"
      using w(3) w0(3) ib b by (simp add: set_py_range)
    with World_get_cell [OF w(2) ib] show ?thesis by simp
  qed
  with g show ?thesis by blast
qed

theorem generate_flat_columns_witness:
  "(0::int) \<le> 1 \<and> (1::int) \<le> 2 \<and>
   (case WorldGen_generate_flat 2 1 of
      Inl e \<Rightarrow> False
    | Inr w \<Rightarrow> World_get 2 w (1, 1, 0) = Inr (NpUint8 1) \<and>
              World_get 2 w (1, 1, 1) = Inr (NpUint8 0))"
proof -
  from generate_flat_columns [of 1 2] obtain w where
    w: "WorldGen_generate_flat 2 1 = Inr w"
       "\<And>x y z. 0 \<le> x \<and> x < 2 \<and> 0 \<le> y \<and> y < 2 \<and> 0 \<le> z \<and> z < 2 \<Longrightarrow>
              World_get 2 w (x, y, z) = Inr (NpUint8 (if z < 1 then 1 else 0))"
    by auto
  from w(2) [of 1 1 0] w(2) [of 1 1 1] w(1) show ?thesis by simp
qed



text \<open>
  Claim C9. Whenever \<^verbatim>\<open>load(path)\<close> raises \<^verbatim>\<open>WorldGenSizeError\<close>, the world's voxel buffer
  is already the array read from the file, whose shape is not \<open>(S ** 3,)\<close>: the world no longer
  satisfies the buffer invariant, and a buffer that satisfied it has been replaced.
\<close>

theorem World_load_not_atomic:
  assumes "fst (World_load S fs w path) = Inl (WorldGenSizeError m)"
  shows "\<exists>a. fs path = Some a \<and> voxels (snd (World_load S fs w path)) = a \<and>
           map int (shape a) \<noteq> [S ^ 3] \<and> \<not> world_ok S (snd (World_load S fs w path)) \<and>
           (world_ok S w \<longrightarrow> voxels (snd (World_load S fs w path)) \<noteq> voxels w)"
  using assms
  by (auto simp add: World_load_def np_load_def Let_def world_ok_def split: option.splits if_splits)

theorem World_load_not_atomic_witness:
  "fst (World_load 2 [''debug.npy'' \<mapsto> \<lparr>shape = [3], data = [1, 2, 3]\<rparr>]
          \<lparr>voxels = \<lparr>shape = [8], data = replicate 8 0\<rparr>, sun = (0, 0, 1)\<rparr> ''debug.npy'')
     = Inl (WorldGenSizeError ''Incorrect world size'') \<and>
   voxels (snd (World_load 2 [''debug.npy'' \<mapsto> \<lparr>shape = [3], data = [1, 2, 3]\<rparr>]
          \<lparr>voxels = \<lparr>shape = [8], data = replicate 8 0\<rparr>, sun = (0, 0, 1)\<rparr> ''debug.npy''))
     = \<lparr>shape = [3], data = [1, 2, 3]\<rparr> \<and>
   \<not> world_ok 2 (snd (World_load 2 [''debug.npy'' \<mapsto> \<lparr>shape = [3], data = [1, 2, 3]\<rparr>]
          \<lparr>voxels = \<lparr>shape = [8], data = replicate 8 0\<rparr>, sun = (0, 0, 1)\<rparr> ''debug.npy''))"
proof -
  have e: "fst (World_load 2 [''debug.npy'' \<mapsto> \<lparr>shape = [3], data = [1, 2, 3]\<rparr>]
          \<lparr>voxels = \<lparr>shape = [8], data = replicate 8 0\<rparr>, sun = (0, 0, 1)\<rparr> ''debug.npy'')
     = Inl (WorldGenSizeError ''Incorrect world size'')"
    by (simp add: World_load_def np_load_def)
  from World_load_not_atomic [OF e] e show ?thesis by auto
qed

text \<open>
  Claim C10. On a grid whose buffer has \<open>S ** 3\<close> cells, for every in-bounds position
  \<open>(x, y, z)\<close> and every value, \<^verbatim>\<open>set\<close> leaves the sun direction, the shape and the length of the
  buffer and every cell other than the one at index \<open>z*S*S + y*S + x\<close> unchanged; when the value
  resolves to a block ID in \<open>[0, 256)\<close>, \<^verbatim>\<open>set\<close> returns \<^verbatim>\<open>True\<close> and that cell holds the ID.
\<close>

theorem World_set_single_cell:
  assumes "world_ok S w" and "0 \<le> x \<and> x < S" and "0 \<le> y \<and> y < S" and "0 \<le> z \<and> z < S"
  shows "sun (snd (World_set S named w (x, y, z) val)) = sun w \<and>
         shape (voxels (snd (World_set S named w (x, y, z) val))) = shape (voxels w) \<and>
         length (data (voxels (snd (World_set S named w (x, y, z) val)))) = length (data (voxels w)) \<and>
         (\<forall>j. j \<noteq> nat (z * S * S + y * S + x) \<longrightarrow>
            data (voxels (snd (World_set S named w (x, y, z) val))) ! j = data (voxels w) ! j) \<and>
         (\<forall>v. (case val of Name s \<Rightarrow> named s | Id u \<Rightarrow> Some u) = Some v \<and> 0 \<le> v \<and> v < 256 \<longrightarrow>
            fst (World_set S named w (x, y, z) val) = Inr True \<and>
            nat (z * S * S + y * S + x) < length (data (voxels w)) \<and>
            data (voxels (snd (World_set S named w (x, y, z) val))) ! nat (z * S * S + y * S + x)
              = word_of_int v)"
proof -
  have ib: "in_bounds S (x, y, z)" using assms by (simp add: in_bounds.simps)
  have fi: "flat_index S (x, y, z) = z * S * S + y * S + x"
    by (simp add: flat_index.simps WORLD_LAYER_def)
  from world_ok_shape [OF assms(1)] obtain n where
    n: "shape (voxels w) = [n]" "length (data (voxels w)) = n" "int n = S ^ 3" by blast
  from flat_index_bounds [OF ib] n fi
  have k: "0 \<le> z * S * S + y * S + x" "z * S * S + y * S + x < int n" by simp_all
  then have k': "nat (z * S * S + y * S + x) < length (data (voxels w))" using n by simp
  let ?r = "World_set S named w (x, y, z) val"
  show ?thesis
  proof (cases "\<exists>v. (case val of Name s \<Rightarrow> named s | Id u \<Rightarrow> Some u) = Some v \<and> 0 \<le> v \<and> v < 256")
    case True
    then obtain v where v: "(case val of Name s \<Rightarrow> named s | Id u \<Rightarrow> Some u) = Some v"
        "0 \<le> v" "v < 256" by blast
    from World_set_resolved [OF assms(1) ib v] fi k' v(1) show ?thesis
      by simp
  next
    case False
    then have "snd ?r = w" by (rule World_set_unresolved)
    with False show ?thesis by auto
  qed
qed

theorem World_set_single_cell_witness:
  "world_ok 2 \<lparr>voxels = \<lparr>shape = [8], data = [1, 1, 1, 1, 1, 1, 1, 1]\<rparr>, sun = (0, 0, 1)\<rparr> \<and>
   sun (snd (World_set 2 [''grass_block'' \<mapsto> 2]
     \<lparr>voxels = \<lparr>shape = [8], data = [1, 1, 1, 1, 1, 1, 1, 1]\<rparr>, sun = (0, 0, 1)\<rparr> (1, 0, 1)
     (Name ''grass_block''))) = (0, 0, 1) \<and>
   data (voxels (snd (World_set 2 [''grass_block'' \<mapsto> 2]
     \<lparr>voxels = \<lparr>shape = [8], data = [1, 1, 1, 1, 1, 1, 1, 1]\<rparr>, sun = (0, 0, 1)\<rparr> (1, 0, 1)
     (Name ''grass_block'')))) ! 5 = 2 \<and>
   data (voxels (snd (World_set 2 [''grass_block'' \<mapsto> 2]
     \<lparr>voxels = \<lparr>shape = [8], data = [1, 1, 1, 1, 1, 1, 1, 1]\<rparr>, sun = (0, 0, 1)\<rparr> (1, 0, 1)
     (Name ''grass_block'')))) ! 4 = 1"
proof -
  have ok: "world_ok 2 \<lparr>voxels = \<lparr>shape = [8], data = [1, 1, 1, 1, 1, 1, 1, 1]\<rparr>, sun = (0, 0, 1)\<rparr>"
    by (simp add: world_ok_def)
  have "(1::nat) \<noteq> 5" "(4::nat) \<noteq> 5" by simp_all
  with World_set_single_cell [OF ok, of 1 0 1 "[''grass_block'' \<mapsto> 2]" "Name ''grass_block''"] ok
  show ?thesis by simp
qed

end
